theory Spec2Isabelle
  imports Main
begin

section \<open>The publish helper \<open>git.py\<close>\<close>

text \<open>
  The script drives the external \<open>git\<close> executable through a fixed sequence of child
  processes and prints status lines. The model records what the script does, in the
  order in which it does it, as a trace of events: a call of \<open>print\<close> on standard
  output, a call of \<open>print\<close> on standard error, and a child process that was started and
  waited for. When a printed line reaches the outside is a matter of the stream's
  buffer, which \<open>deliver\<close> below describes.

  A Python \<open>str\<close> is a list of code points, the output of a child process is a list of
  bytes, and turning the one into the other can fail. A printed line is kept without
  the newline that \<open>print\<close> appends. Two things are assumed of the surroundings: the
  \<open>git\<close> executable can be started, and the standard streams can encode every text
  that is printed.
\<close>

subsection \<open>Text and bytes\<close>

type_synonym pytext = "int list"

type_synonym bytes = "char list"

text \<open>A literal of the source.\<close>

definition str :: "string \<Rightarrow> pytext" where
  "str s = map of_char s"

fun join :: "'a list \<Rightarrow> 'a list list \<Rightarrow> 'a list" where
  "join sep [] = []"
| "join sep [x] = x"
| "join sep (x # y # zs) = x @ sep @ join sep (y # zs)"

text \<open>
  \<open>str.strip()\<close> removes leading and trailing whitespace. The whitespace code points
  of Python are U+0009 to U+000D, U+001C to U+0020, U+0085, U+00A0, U+1680, U+2000 to
  U+200A, U+2028, U+2029, U+202F, U+205F and U+3000.
\<close>

definition is_space :: "int \<Rightarrow> bool" where
  "is_space c =
     ((9 \<le> c \<and> c \<le> 13) \<or> (28 \<le> c \<and> c \<le> 32) \<or> c = 133 \<or> c = 160 \<or> c = 5760 \<or>
      (8192 \<le> c \<and> c \<le> 8202) \<or> c = 8232 \<or> c = 8233 \<or> c = 8239 \<or> c = 8287 \<or>
      c = 12288)"

definition strip :: "pytext \<Rightarrow> pytext" where
  "strip s = rev (dropWhile is_space (rev (dropWhile is_space s)))"

definition newline :: pytext where
  "newline = [10]"

subsection \<open>Module constants\<close>

definition REPO_OWNER :: pytext where
  "REPO_OWNER = str ''Ravi-Chandra24''"

definition REPO_NAME :: pytext where
  "REPO_NAME = str ''Ask-her-Out''"

definition FILES :: "pytext list" where
  "FILES = map str [''index.html'', ''ask_her_out.html'', ''schedule.html'', ''git.py'']"

definition COMMIT_MSG :: pytext where
  "COMMIT_MSG = str ''Prepare site for GitHub Pages''"

subsection \<open>Processes, events and the surrounding system\<close>

text \<open>
  What the parent sees of a finished child: its return code (negative when a signal
  ended the child) and the bytes read from the pipe the call collects (\<open>check_output\<close>
  with \<open>stderr=STDOUT\<close> collects both streams, \<open>p.stdout\<close> of \<open>subprocess.run\<close> the
  standard output).
\<close>

record completed =
  returncode :: int
  captured :: bytes

datatype event =
    Stdout pytext
  | Stderr pytext
  | Spawn "pytext list" completed

text \<open>A line that library code prints, and the event it is in the trace.\<close>

datatype printed = ToStdout pytext | ToStderr pytext

fun shown :: "printed \<Rightarrow> event" where
  "shown (ToStdout s) = Stdout s"
| "shown (ToStderr s) = Stderr s"

text \<open>The namespace that \<open>parse_args\<close> returns, one field per \<open>add_argument\<close>.\<close>

record args =
  message :: pytext
  all :: bool
  no_push :: bool
  remote :: pytext
  branch :: pytext
  dry_run :: bool

text \<open>
  A call returns a value, leaves through \<open>sys.exit\<close> with a status, or raises an
  exception that nothing in the script catches.
\<close>

datatype exn = UnicodeDecodeError

datatype 'a outcome = Returned 'a | Exited int | Raised exn

text \<open>
  Everything the script does not own is a parameter: \<open>spawn\<close> runs a command line to
  completion in a world \<open>'w\<close> (the repository, the network, the credentials) and gives
  the finished process and the new world; \<open>argparse\<close> is the standard library's
  \<open>ArgumentParser.parse_args\<close> for the parser that \<open>parse_args\<close> builds, applied to an
  argument vector, with the lines it prints; \<open>describe\<close> is \<open>str(e)\<close> of a
  \<open>CalledProcessError\<close> for a command and a return code; \<open>decode\<close> is \<open>bytes.decode()\<close>,
  which gives no text for bytes that are not UTF-8. The executable is assumed to be
  launchable, so every \<open>spawn\<close> finishes with a return code.
\<close>

record 'w system =
  spawn :: "pytext list \<Rightarrow> 'w \<Rightarrow> completed \<times> 'w"
  argparse :: "pytext list \<Rightarrow> args outcome \<times> printed list"
  describe :: "pytext list \<Rightarrow> int \<Rightarrow> pytext"
  decode :: "bytes \<Rightarrow> pytext option"

record 'w state =
  world :: 'w
  trace :: "event list"

definition init :: "'w \<Rightarrow> 'w state" where
  "init w = \<lparr>world = w, trace = []\<rparr>"

definition emit :: "event \<Rightarrow> 'w state \<Rightarrow> 'w state" where
  "emit e st = st\<lparr>trace := trace st @ [e]\<rparr>"

definition call :: "'w system \<Rightarrow> pytext list \<Rightarrow> 'w state \<Rightarrow> completed \<times> 'w state" where
  "call sys cmd st =
     (let (p, w') = spawn sys cmd (world st)
      in (p, \<lparr>world = w', trace = trace st @ [Spawn cmd p]\<rparr>))"

text \<open>
  Sequencing: once a step has left through \<open>sys.exit\<close> or an exception, nothing after
  it runs.
\<close>

definition and_then ::
  "('w state \<Rightarrow> 'a outcome \<times> 'w state) \<Rightarrow> ('a \<Rightarrow> 'w state \<Rightarrow> 'b outcome \<times> 'w state)
     \<Rightarrow> 'w state \<Rightarrow> 'b outcome \<times> 'w state" where
  "and_then m f st =
     (case m st of
        (Exited c, st') \<Rightarrow> (Exited c, st')
      | (Raised e, st') \<Rightarrow> (Raised e, st')
      | (Returned x, st') \<Rightarrow> f x st')"

definition say :: "pytext \<Rightarrow> 'w state \<Rightarrow> unit outcome \<times> 'w state" where
  "say s st = (Returned (), emit (Stdout s) st)"

subsection \<open>The script\<close>

text \<open>
  \<open>run\<close> echoes the command and runs it. A capturing call that returns 0 gives the
  decoded and stripped output; the decoding is outside the \<open>try\<close> for any error but
  \<open>CalledProcessError\<close>, so bytes that do not decode raise. On a non-zero return code
  \<open>run\<close> prints \<open>Command failed:\<close> with \<open>e.output.decode()\<close> or, where that raises
  (the output of \<open>check_call\<close> is \<open>None\<close>, the output of \<open>check_output\<close> may not decode),
  with \<open>str(e)\<close>, and exits with the return code when \<open>check\<close> is set.
\<close>

definition run ::
  "'w system \<Rightarrow> pytext list \<Rightarrow> bool \<Rightarrow> bool \<Rightarrow> 'w state \<Rightarrow> pytext option outcome \<times> 'w state" where
  "run sys cmd check capture st =
     (let st1 = emit (Stdout (str ''$ '' @ join (str '' '') cmd)) st;
          (p, st2) = call sys cmd st1
      in if returncode p = 0
         then
           (if capture
            then (case decode sys (captured p) of
                    None \<Rightarrow> (Raised UnicodeDecodeError, st2)
                  | Some t \<Rightarrow> (Returned (Some (strip t)), st2))
            else (Returned None, st2))
         else
           (let out = (if capture
                       then (case decode sys (captured p) of
                               None \<Rightarrow> describe sys cmd (returncode p)
                             | Some t \<Rightarrow> t)
                       else describe sys cmd (returncode p));
                st3 = emit (Stderr (str ''Command failed: '' @ out)) st2
            in if check then (Exited (returncode p), st3) else (Returned None, st3)))"

definition cmd_rev_parse :: "pytext list" where
  "cmd_rev_parse = map str [''git'', ''rev-parse'', ''--is-inside-work-tree'']"

definition inside_git_repo :: "'w system \<Rightarrow> 'w state \<Rightarrow> bool \<times> 'w state" where
  "inside_git_repo sys st =
     (let (p, st1) = call sys cmd_rev_parse st
      in (returncode p = 0, st1))"

definition cmd_get_url :: "pytext list" where
  "cmd_get_url = map str [''git'', ''remote'', ''get-url'', ''origin'']"

definition ssh_url :: pytext where
  "ssh_url = str ''git@github.com:'' @ REPO_OWNER @ str ''/'' @ REPO_NAME @ str ''.git''"

definition cmd_remote_add :: "pytext list" where
  "cmd_remote_add = map str [''git'', ''remote'', ''add'', ''origin''] @ [ssh_url]"

text \<open>
  \<open>ensure_origin\<close> decodes the answer of the query outside any \<open>try\<close>: an answer that
  does not decode raises.
\<close>

definition ensure_origin :: "'w system \<Rightarrow> 'w state \<Rightarrow> bool outcome \<times> 'w state" where
  "ensure_origin sys st =
     (let (p, st1) = call sys cmd_get_url st
      in if returncode p = 0
         then
           (case decode sys (captured p) of
              None \<Rightarrow> (Raised UnicodeDecodeError, st1)
            | Some t \<Rightarrow>
                (let url = strip t
                 in (Returned True,
                     emit (Stdout (str ''origin remote configured: '' @ url)) st1)))
         else
           and_then (say (str ''No origin remote found. Adding origin -> '' @ ssh_url))
             (\<lambda>_. and_then (run sys cmd_remote_add True False)
               (\<lambda>_ st'. (Returned True, st'))) st1)"

definition parse_args :: "'w system \<Rightarrow> pytext list \<Rightarrow> 'w state \<Rightarrow> args outcome \<times> 'w state" where
  "parse_args sys argv st =
     (let (r, lines) = argparse sys argv
      in (r, st\<lparr>trace := trace st @ map shown lines\<rparr>))"

definition cmd_stage_all :: "pytext list" where
  "cmd_stage_all = map str [''git'', ''add'', ''-A'']"

definition cmd_stage_files :: "pytext list" where
  "cmd_stage_files = map str [''git'', ''add''] @ FILES"

definition cmd_diff_cached :: "pytext list" where
  "cmd_diff_cached = map str [''git'', ''diff'', ''--cached'', ''--name-only'']"

definition cmd_commit :: "pytext \<Rightarrow> pytext list" where
  "cmd_commit msg = map str [''git'', ''commit'', ''-m''] @ [msg]"

definition cmd_push :: "pytext \<Rightarrow> pytext \<Rightarrow> pytext list" where
  "cmd_push r b = map str [''git'', ''push''] @ [r, b]"

text \<open>\<open>not staged\<close> holds of \<open>None\<close> and of the empty string.\<close>

definition falsy :: "pytext option \<Rightarrow> bool" where
  "falsy v = (case v of None \<Rightarrow> True | Some s \<Rightarrow> s = [])"

definition text_of :: "pytext option \<Rightarrow> pytext" where
  "text_of v = (case v of None \<Rightarrow> str ''None'' | Some s \<Rightarrow> s)"

definition main :: "'w system \<Rightarrow> pytext list \<Rightarrow> 'w state \<Rightarrow> unit outcome \<times> 'w state" where
  "main sys argv st =
     (let (ok, st1) = inside_git_repo sys st
      in if \<not> ok
         then
           (Exited 1,
            emit (Stdout (str ''This directory is not a git repository. Initialize or run from repo root.'')) st1)
         else
           and_then (parse_args sys argv) (\<lambda>a.
           and_then (if all a then run sys cmd_stage_all True False
                     else run sys cmd_stage_files True False) (\<lambda>_.
           and_then (run sys cmd_diff_cached True True) (\<lambda>staged.
           and_then (if falsy staged then say (str ''No staged changes to commit.'')
                     else
                       and_then (say (str ''Staged files:'' @ newline @ str '' '' @ text_of staged)) (\<lambda>_.
                         if dry_run a
                         then say (str ''Dry-run: would commit with message:'' @ newline @ str '' '' @ message a)
                         else and_then (run sys (cmd_commit (message a)) True False)
                                (\<lambda>_. Pair (Returned ())))) (\<lambda>_.
           and_then (ensure_origin sys) (\<lambda>_.
             if no_push a then say (str ''--no-push set: skipping push step.'')
             else
               and_then (say (str ''Pushing to '' @ remote a @ str '' '' @ branch a @ str ''...'')) (\<lambda>_.
                 if dry_run a then say (str ''Dry-run: would run push command'')
                 else and_then (run sys (cmd_push (remote a) (branch a)) True False)
                        (\<lambda>_. Pair (Returned ())))))))) st1)"

text \<open>
  The exit status of the process: 0 after a normal return, the low eight bits of the
  argument of \<open>sys.exit\<close> (a negative return code of a child that a signal ended wraps
  around), and 1 after an exception that nothing caught, for which the interpreter
  prints a traceback on standard error.
\<close>

definition exit_status :: "'a outcome \<Rightarrow> int" where
  "exit_status r = (case r of Returned _ \<Rightarrow> 0 | Exited c \<Rightarrow> c mod 256 | Raised e \<Rightarrow> 1)"

text \<open>
  Standard output is buffered and \<open>print\<close> does not flush it. \<open>deliver flush pending tr\<close>
  is what reaches the outside, in order, while the script does \<open>tr\<close>: a printed line
  joins the pending lines, which are written out when the policy \<open>flush\<close> says so (after
  every line for a terminal or an unbuffered stream, when the buffer is full otherwise)
  and when the process ends. Lines are written out whole here. Child processes write for
  themselves and standard error is line-buffered (as it is since Python 3.9), so neither
  is held back.
\<close>

fun deliver :: "(pytext list \<Rightarrow> bool) \<Rightarrow> pytext list \<Rightarrow> event list \<Rightarrow> event list" where
  "deliver flush pending [] = map Stdout pending"
| "deliver flush pending (Stdout s # es) =
     (if flush (pending @ [s]) then map Stdout (pending @ [s]) @ deliver flush [] es
      else deliver flush (pending @ [s]) es)"
| "deliver flush pending (e # es) = e # deliver flush pending es"

subsection \<open>Reasoning about steps\<close>

text \<open>
  \<open>wp m Q tr\<close>: started on any state whose trace is \<open>tr\<close>, the step \<open>m\<close> ends with an
  outcome and a trace that satisfy \<open>Q\<close>. The world is left open, so a property shown
  this way holds whatever the commands answer.
\<close>

definition wp ::
  "('w state \<Rightarrow> 'a outcome \<times> 'w state) \<Rightarrow> ('a outcome \<Rightarrow> event list \<Rightarrow> bool)
     \<Rightarrow> event list \<Rightarrow> bool" where
  "wp m Q tr = (\<forall>st. trace st = tr \<longrightarrow> Q (fst (m st)) (trace (snd (m st))))"

text \<open>What a call that returned 0 hands back: nothing, the stripped text, or the error.\<close>

definition collected :: "'w system \<Rightarrow> bool \<Rightarrow> completed \<Rightarrow> pytext option outcome" where
  "collected sys capture p =
     (if capture
      then (case decode sys (captured p) of
              None \<Rightarrow> Raised UnicodeDecodeError
            | Some t \<Rightarrow> Returned (Some (strip t)))
      else Returned None)"

subsection \<open>What a run shows\<close>

text \<open>
  A run starts from an empty trace. Its exit status, its events and the command lines
  it executed are what the properties below speak about.
\<close>

definition status :: "'w system \<Rightarrow> pytext list \<Rightarrow> 'w \<Rightarrow> int" where
  "status sys argv w = exit_status (fst (main sys argv (init w)))"

definition events :: "'w system \<Rightarrow> pytext list \<Rightarrow> 'w \<Rightarrow> event list" where
  "events sys argv w = trace (snd (main sys argv (init w)))"

fun procs :: "event list \<Rightarrow> (pytext list \<times> completed) list" where
  "procs [] = []"
| "procs (Spawn cmd p # es) = (cmd, p) # procs es"
| "procs (e # es) = procs es"

definition spawned :: "event list \<Rightarrow> pytext list list" where
  "spawned tr = map fst (procs tr)"

definition commands :: "'w system \<Rightarrow> pytext list \<Rightarrow> 'w \<Rightarrow> pytext list list" where
  "commands sys argv w = spawned (events sys argv w)"

definition failures :: "event list \<Rightarrow> (pytext list \<times> completed) list" where
  "failures tr = filter (\<lambda>(cmd, p). returncode p \<noteq> 0) (procs tr)"

text \<open>
  The failed commands of a trace other than the query for the address of \<open>origin\<close>.
\<close>

definition fatal :: "event list \<Rightarrow> (pytext list \<times> completed) list" where
  "fatal tr = filter (\<lambda>(cmd, p). cmd \<noteq> cmd_get_url) (failures tr)"

text \<open>\<open>failed cmd tr\<close>: the command \<open>cmd\<close> was executed in \<open>tr\<close> and returned non-zero.\<close>

definition failed :: "pytext list \<Rightarrow> event list \<Rightarrow> bool" where
  "failed cmd tr = (filter (\<lambda>(c, p). c = cmd) (failures tr) \<noteq> [])"

text \<open>
  The two commands whose output the script decodes after a return code of 0, where
  they returned 0 with bytes that do not decode.
\<close>

definition undecoded :: "'w system \<Rightarrow> event list \<Rightarrow> (pytext list \<times> completed) list" where
  "undecoded sys tr =
     filter (\<lambda>(cmd, p). (cmd = cmd_diff_cached \<or> cmd = cmd_get_url) \<and> returncode p = 0 \<and>
                          decode sys (captured p) = None) (procs tr)"

definition is_stage :: "pytext list \<Rightarrow> bool" where
  "is_stage cmd = (take 2 cmd = map str [''git'', ''add''])"

definition is_commit :: "pytext list \<Rightarrow> bool" where
  "is_commit cmd = (take 2 cmd = map str [''git'', ''commit''])"

definition is_remote_query :: "pytext list \<Rightarrow> bool" where
  "is_remote_query cmd = (take 3 cmd = map str [''git'', ''remote'', ''get-url''])"

definition is_remote_add :: "pytext list \<Rightarrow> bool" where
  "is_remote_add cmd = (take 3 cmd = map str [''git'', ''remote'', ''add''])"

definition is_push :: "pytext list \<Rightarrow> bool" where
  "is_push cmd = (take 2 cmd = map str [''git'', ''push''])"

definition mutating :: "pytext list \<Rightarrow> bool" where
  "mutating cmd = (is_stage cmd \<or> is_commit cmd \<or> is_remote_add cmd \<or> is_push cmd)"

text \<open>The line \<open>run\<close> prints before a command, and the line it prints after a failure.\<close>

definition echo :: "pytext list \<Rightarrow> event" where
  "echo cmd = Stdout (str ''$ '' @ join (str '' '') cmd)"

definition failure :: "'w system \<Rightarrow> pytext list \<Rightarrow> bool \<Rightarrow> completed \<Rightarrow> event" where
  "failure sys cmd capture p =
     Stderr (str ''Command failed: '' @
       (if capture
        then (case decode sys (captured p) of
                None \<Rightarrow> describe sys cmd (returncode p)
              | Some t \<Rightarrow> t)
        else describe sys cmd (returncode p)))"

text \<open>
  The commands of a trace that were started without their echo as the event just
  before.
\<close>

fun unechoed :: "event list \<Rightarrow> pytext list list" where
  "unechoed [] = []"
| "unechoed (Stdout s # Spawn cmd p # es) =
     (if Stdout s = echo cmd then [] else [cmd]) @ unechoed es"
| "unechoed (Spawn cmd p # es) = cmd # unechoed es"
| "unechoed (e # es) = unechoed es"

subsection \<open>A stand-in system for concrete runs\<close>

text \<open>
  The namespace of an empty argument vector: the \<open>default\<close> of each \<open>add_argument\<close>,
  \<open>False\<close> for a \<open>store_true\<close> option.
\<close>

definition default_args :: args where
  "default_args =
     \<lparr>message = COMMIT_MSG, all = False, no_push = False,
      remote = str ''origin'', branch = str ''main'', dry_run = False\<rparr>"

text \<open>
  The option table of \<open>parse_args\<close> on argument vectors that spell every option in full
  and give each value as the next word, a word that does not start with a dash. It
  stands in for the library in concrete runs; other vectors are answered with the
  library's status 2 here, and no theorem with a free system depends on that answer.
\<close>

fun exact_options :: "args \<Rightarrow> pytext list \<Rightarrow> args option" where
  "exact_options a [] = Some a"
| "exact_options a [t] =
     (if t = str ''--all'' then Some (a\<lparr>all := True\<rparr>)
      else if t = str ''--no-push'' then Some (a\<lparr>no_push := True\<rparr>)
      else if t = str ''--dry-run'' then Some (a\<lparr>dry_run := True\<rparr>)
      else None)"
| "exact_options a (t # v # ts) =
     (if t = str ''--all'' then exact_options (a\<lparr>all := True\<rparr>) (v # ts)
      else if t = str ''--no-push'' then exact_options (a\<lparr>no_push := True\<rparr>) (v # ts)
      else if t = str ''--dry-run'' then exact_options (a\<lparr>dry_run := True\<rparr>) (v # ts)
      else if take 1 v = str ''-'' then None
      else if t = str ''-m'' \<or> t = str ''--message'' then exact_options (a\<lparr>message := v\<rparr>) ts
      else if t = str ''--remote'' then exact_options (a\<lparr>remote := v\<rparr>) ts
      else if t = str ''--branch'' then exact_options (a\<lparr>branch := v\<rparr>) ts
      else None)"

definition exact_argparse :: "pytext list \<Rightarrow> args outcome \<times> printed list" where
  "exact_argparse argv =
     (case exact_options default_args argv of
        Some a \<Rightarrow> (Returned a, [])
      | None \<Rightarrow>
          (Exited 2,
           [ToStderr (str ''usage: git.py [-h] [-m MESSAGE] [--all] [--no-push] [--remote REMOTE] [--branch BRANCH] [--dry-run]'')]))"

text \<open>
  The library's text for a failed command, for a positive return code and words without
  quotes or backslashes: the command list as Python prints it and the code in decimal.
\<close>

fun decimal :: "nat \<Rightarrow> string" where
  "decimal n =
     (if n < 10 then [char_of (48 + n)]
      else decimal (n div 10) @ [char_of (48 + n mod 10)])"

declare decimal.simps [simp del]

definition py_list :: "pytext list \<Rightarrow> pytext" where
  "py_list ws = str ''['' @ join (str '', '') (map (\<lambda>w. [39] @ w @ [39]) ws) @ str '']''"

definition called_process_error :: "pytext list \<Rightarrow> int \<Rightarrow> pytext" where
  "called_process_error cmd rc =
     str ''Command '' @ [39] @ py_list cmd @ [39] @
     str '' returned non-zero exit status '' @ str (decimal (nat rc)) @ str ''.''"

text \<open>
  Decoding for bytes below 128, where UTF-8 is ASCII, and encoding of such text. Other
  bytes are refused here; the concrete runs use only ASCII and the byte 255, which no
  UTF-8 text contains.
\<close>

definition ascii_decode :: "bytes \<Rightarrow> pytext option" where
  "ascii_decode bs =
     (if list_all (\<lambda>b. (of_char b :: int) < 128) bs then Some (map of_char bs) else None)"

definition ascii_bytes :: "pytext \<Rightarrow> bytes" where
  "ascii_bytes t = map char_of t"

text \<open>
  A small repository to run against: whether the directory is a work tree, the remotes
  with the bytes of their addresses, the files changed and not yet staged, the staged
  files, and whether the credentials allow a push. \<open>fake_git\<close> answers the command lines
  of the script with the return codes of the real tool (128 outside a work tree and for
  a push that is refused, 2 for an unknown remote, 3 for a remote that exists already,
  1 for a commit with nothing staged).
\<close>

record repo =
  is_repo :: bool
  remotes :: "(pytext \<times> bytes) list"
  modified :: "pytext list"
  index :: "pytext list"
  credentials :: bool

definition finished :: "int \<Rightarrow> bytes \<Rightarrow> completed" where
  "finished c out = \<lparr>returncode = c, captured = out\<rparr>"

definition fake_git :: "pytext list \<Rightarrow> repo \<Rightarrow> completed \<times> repo" where
  "fake_git cmd w =
     (if \<not> is_repo w then (finished 128 [], w)
      else if cmd = cmd_rev_parse then (finished 0 (ascii_bytes (str ''true'' @ newline)), w)
      else if take 2 cmd = map str [''git'', ''add''] then
        (let chosen = (if drop 2 cmd = [str ''-A''] then modified w
                       else filter (\<lambda>f. f \<in> set (drop 2 cmd)) (modified w))
         in (finished 0 [],
             w\<lparr>index := index w @ chosen,
               modified := filter (\<lambda>f. f \<notin> set chosen) (modified w)\<rparr>))
      else if cmd = cmd_diff_cached then
        (finished 0 (concat (map (\<lambda>f. ascii_bytes (f @ newline)) (index w))), w)
      else if take 3 cmd = map str [''git'', ''commit'', ''-m''] then
        (if index w = [] then (finished 1 [], w) else (finished 0 [], w\<lparr>index := []\<rparr>))
      else if take 3 cmd = map str [''git'', ''remote'', ''get-url''] then
        (case map_of (remotes w) (last cmd) of
           Some url \<Rightarrow> (finished 0 (url @ ascii_bytes newline), w)
         | None \<Rightarrow> (finished 2 [], w))
      else if take 3 cmd = map str [''git'', ''remote'', ''add''] \<and> length cmd = 5 then
        (case map_of (remotes w) (cmd ! 3) of
           Some url \<Rightarrow> (finished 3 [], w)
         | None \<Rightarrow>
             (finished 0 [], w\<lparr>remotes := remotes w @ [(cmd ! 3, ascii_bytes (cmd ! 4))]\<rparr>))
      else if take 2 cmd = map str [''git'', ''push''] \<and> length cmd = 4 then
        (if map_of (remotes w) (cmd ! 2) \<noteq> None \<and> credentials w
         then (finished 0 [], w) else (finished 128 [], w))
      else (finished 1 [], w))"

definition sim :: "repo system" where
  "sim =
     \<lparr>spawn = fake_git, argparse = exact_argparse, describe = called_process_error,
      decode = ascii_decode\<rparr>"

text \<open>A work tree with one changed page, no remote yet, and working credentials.\<close>

definition fresh :: repo where
  "fresh =
     \<lparr>is_repo = True, remotes = [], modified = [str ''index.html''], index = [],
      credentials = True\<rparr>"

text \<open>
  Variations: a directory that is no work tree; a work tree whose only remote is called
  \<open>upstream\<close>; a work tree with nothing changed and \<open>origin\<close> in place; a work tree
  with \<open>origin\<close> in place whose push is refused; a work tree with nothing changed whose
  \<open>origin\<close> has an address that is the single byte 255.
\<close>

definition outside :: repo where
  "outside = fresh\<lparr>is_repo := False\<rparr>"

definition mirrored :: repo where
  "mirrored = fresh\<lparr>remotes := [(str ''upstream'', ascii_bytes (str ''git@example.org:site.git''))]\<rparr>"

definition settled :: repo where
  "settled = fresh\<lparr>modified := [], remotes := [(str ''origin'', ascii_bytes ssh_url)]\<rparr>"


definition garbled :: repo where
  "garbled = fresh\<lparr>modified := [], remotes := [(str ''origin'', [CHR 0xFF])]\<rparr>"

section \<open>Properties\<close>

subsection \<open>Traces\<close>

lemma procs_append [simp]: "procs (xs @ ys) = procs xs @ procs ys"
  by (induction xs rule: procs.induct) simp_all

lemma procs_shown [simp]: "procs (map shown ls) = []"
proof (induction ls)
  case Nil
  show ?case by simp
next
  case (Cons l ls)
  then show ?case by (cases l) simp_all
qed

lemma procs_echo [simp]: "procs (echo cmd # es) = procs es"
  by (simp add: echo_def)

lemma procs_failure [simp]: "procs (failure sys cmd capture p # es) = procs es"
  by (simp add: failure_def)

lemma spawned_simps [simp]:
  "spawned [] = []"
  "spawned (Spawn cmd p # es) = cmd # spawned es"
  "spawned (Stdout s # es) = spawned es"
  "spawned (Stderr s # es) = spawned es"
  "spawned (echo cmd # es) = spawned es"
  "spawned (failure sys cmd capture p # es) = spawned es"
  "spawned (map shown ls) = []"
  "spawned (xs @ ys) = spawned xs @ spawned ys"
  by (simp_all add: spawned_def)

lemma failures_simps [simp]:
  "failures [] = []"
  "failures (Spawn cmd p # es) = (if returncode p = 0 then [] else [(cmd, p)]) @ failures es"
  "failures (Stdout s # es) = failures es"
  "failures (Stderr s # es) = failures es"
  "failures (echo cmd # es) = failures es"
  "failures (failure sys cmd capture p # es) = failures es"
  "failures (map shown ls) = []"
  "failures (xs @ ys) = failures xs @ failures ys"
  by (simp_all add: failures_def)

lemma fatal_simps [simp]:
  "fatal [] = []"
  "fatal (Spawn cmd p # es) =
     (if returncode p = 0 \<or> cmd = cmd_get_url then [] else [(cmd, p)]) @ fatal es"
  "fatal (Stdout s # es) = fatal es"
  "fatal (Stderr s # es) = fatal es"
  "fatal (echo cmd # es) = fatal es"
  "fatal (failure sys cmd capture p # es) = fatal es"
  "fatal (map shown ls) = []"
  "fatal (xs @ ys) = fatal xs @ fatal ys"
  by (simp_all add: fatal_def)

lemma failed_simps [simp]:
  "failed c [] = False"
  "failed c (Spawn cmd p # es) = ((cmd = c \<and> returncode p \<noteq> 0) \<or> failed c es)"
  "failed c (Stdout s # es) = failed c es"
  "failed c (Stderr s # es) = failed c es"
  "failed c (echo cmd # es) = failed c es"
  "failed c (failure sys cmd capture p # es) = failed c es"
  "failed c (map shown ls) = False"
  "failed c (xs @ ys) = (failed c xs \<or> failed c ys)"
  by (auto simp: failed_def)

lemma undecoded_simps [simp]:
  "undecoded sys [] = []"
  "undecoded sys (Spawn cmd p # es) =
     (if (cmd = cmd_diff_cached \<or> cmd = cmd_get_url) \<and> returncode p = 0 \<and>
         decode sys (captured p) = None
      then [(cmd, p)] else []) @ undecoded sys es"
  "undecoded sys (Stdout s # es) = undecoded sys es"
  "undecoded sys (Stderr s # es) = undecoded sys es"
  "undecoded sys (echo cmd # es) = undecoded sys es"
  "undecoded sys (failure sys' cmd capture p # es) = undecoded sys es"
  "undecoded sys (map shown ls) = []"
  "undecoded sys (xs @ ys) = undecoded sys xs @ undecoded sys ys"
  by (simp_all add: undecoded_def)

text \<open>The command lines of the script are pairwise different.\<close>

lemma cmd_distinct [simp]:
  "cmd_rev_parse \<noteq> cmd_get_url" "cmd_rev_parse \<noteq> cmd_remote_add"
  "cmd_rev_parse \<noteq> cmd_stage_all" "cmd_rev_parse \<noteq> cmd_stage_files"
  "cmd_rev_parse \<noteq> cmd_diff_cached" "cmd_rev_parse \<noteq> cmd_commit m"
  "cmd_rev_parse \<noteq> cmd_push r b" "cmd_get_url \<noteq> cmd_rev_parse"
  "cmd_get_url \<noteq> cmd_remote_add" "cmd_get_url \<noteq> cmd_stage_all"
  "cmd_get_url \<noteq> cmd_stage_files" "cmd_get_url \<noteq> cmd_diff_cached"
  "cmd_get_url \<noteq> cmd_commit m" "cmd_get_url \<noteq> cmd_push r b"
  "cmd_remote_add \<noteq> cmd_rev_parse" "cmd_remote_add \<noteq> cmd_get_url"
  "cmd_remote_add \<noteq> cmd_stage_all" "cmd_remote_add \<noteq> cmd_stage_files"
  "cmd_remote_add \<noteq> cmd_diff_cached" "cmd_remote_add \<noteq> cmd_commit m"
  "cmd_remote_add \<noteq> cmd_push r b" "cmd_stage_all \<noteq> cmd_rev_parse"
  "cmd_stage_all \<noteq> cmd_get_url" "cmd_stage_all \<noteq> cmd_remote_add"
  "cmd_stage_all \<noteq> cmd_stage_files" "cmd_stage_all \<noteq> cmd_diff_cached"
  "cmd_stage_all \<noteq> cmd_commit m" "cmd_stage_all \<noteq> cmd_push r b"
  "cmd_stage_files \<noteq> cmd_rev_parse" "cmd_stage_files \<noteq> cmd_get_url"
  "cmd_stage_files \<noteq> cmd_remote_add" "cmd_stage_files \<noteq> cmd_stage_all"
  "cmd_stage_files \<noteq> cmd_diff_cached" "cmd_stage_files \<noteq> cmd_commit m"
  "cmd_stage_files \<noteq> cmd_push r b" "cmd_diff_cached \<noteq> cmd_rev_parse"
  "cmd_diff_cached \<noteq> cmd_get_url" "cmd_diff_cached \<noteq> cmd_remote_add"
  "cmd_diff_cached \<noteq> cmd_stage_all" "cmd_diff_cached \<noteq> cmd_stage_files"
  "cmd_diff_cached \<noteq> cmd_commit m" "cmd_diff_cached \<noteq> cmd_push r b"
  "cmd_commit m \<noteq> cmd_rev_parse" "cmd_commit m \<noteq> cmd_get_url"
  "cmd_commit m \<noteq> cmd_remote_add" "cmd_commit m \<noteq> cmd_stage_all"
  "cmd_commit m \<noteq> cmd_stage_files" "cmd_commit m \<noteq> cmd_diff_cached"
  "cmd_commit m \<noteq> cmd_push r b" "cmd_push r b \<noteq> cmd_rev_parse"
  "cmd_push r b \<noteq> cmd_get_url" "cmd_push r b \<noteq> cmd_remote_add"
  "cmd_push r b \<noteq> cmd_stage_all" "cmd_push r b \<noteq> cmd_stage_files"
  "cmd_push r b \<noteq> cmd_diff_cached" "cmd_push r b \<noteq> cmd_commit m"
  by (simp_all add: cmd_rev_parse_def cmd_get_url_def cmd_remote_add_def cmd_stage_all_def
      cmd_stage_files_def cmd_diff_cached_def cmd_commit_def cmd_push_def FILES_def str_def)

text \<open>What kind of command each command line of the script is.\<close>

lemma cmd_kinds [simp]:
  "\<not> mutating cmd_rev_parse" "\<not> mutating cmd_diff_cached" "\<not> mutating cmd_get_url"
  "is_stage cmd_stage_all" "is_stage cmd_stage_files"
  "\<not> is_stage cmd_rev_parse" "\<not> is_stage cmd_diff_cached" "\<not> is_stage cmd_get_url"
  "\<not> is_stage (cmd_commit m)" "\<not> is_stage cmd_remote_add" "\<not> is_stage (cmd_push r b)"
  "is_commit (cmd_commit m)"
  "\<not> is_commit cmd_rev_parse" "\<not> is_commit cmd_diff_cached" "\<not> is_commit cmd_get_url"
  "\<not> is_commit cmd_stage_all" "\<not> is_commit cmd_stage_files"
  "\<not> is_commit cmd_remote_add" "\<not> is_commit (cmd_push r b)"
  "is_remote_query cmd_get_url"
  "\<not> is_remote_query cmd_rev_parse" "\<not> is_remote_query cmd_diff_cached"
  "\<not> is_remote_query cmd_stage_all" "\<not> is_remote_query cmd_stage_files"
  "\<not> is_remote_query (cmd_commit m)" "\<not> is_remote_query cmd_remote_add"
  "\<not> is_remote_query (cmd_push r b)"
  "is_remote_add cmd_remote_add"
  "\<not> is_remote_add cmd_rev_parse" "\<not> is_remote_add cmd_diff_cached"
  "\<not> is_remote_add cmd_get_url" "\<not> is_remote_add cmd_stage_all"
  "\<not> is_remote_add cmd_stage_files" "\<not> is_remote_add (cmd_commit m)"
  "\<not> is_remote_add (cmd_push r b)"
  "is_push (cmd_push r b)"
  "\<not> is_push cmd_rev_parse" "\<not> is_push cmd_diff_cached" "\<not> is_push cmd_get_url"
  "\<not> is_push cmd_stage_all" "\<not> is_push cmd_stage_files" "\<not> is_push (cmd_commit m)"
  "\<not> is_push cmd_remote_add"
  by (simp_all add: mutating_def is_stage_def is_commit_def is_remote_query_def
      is_remote_add_def is_push_def cmd_rev_parse_def cmd_get_url_def cmd_remote_add_def
      cmd_stage_all_def cmd_stage_files_def cmd_diff_cached_def cmd_commit_def cmd_push_def
      FILES_def str_def)

lemma unechoed_shown [simp]: "unechoed (map shown ls) = []"
proof (induction ls rule: induct_list012)
  case (2 l)
  show ?case by (cases l) simp_all
next
  case (3 l l' ls)
  then show ?case by (cases l; cases l') simp_all
qed simp

lemma unechoed_shown_Stdout [simp]:
  "unechoed (map shown ls @ Stdout s # es) = unechoed (Stdout s # es)"
proof (induction ls rule: induct_list012)
  case (2 l)
  show ?case by (cases l) simp_all
next
  case (3 l l' ls)
  then show ?case by (cases l; cases l') simp_all
qed simp

text \<open>A stream that writes every line out at once delivers the trace as it is.\<close>

lemma deliver_every_line: "deliver (\<lambda>_. True) [] tr = tr"
proof (induction tr)
  case Nil
  show ?case by simp
next
  case (Cons e tr)
  then show ?case by (cases e) simp_all
qed

subsection \<open>Rules for the steps\<close>

lemma wpD: "wp m Q tr \<Longrightarrow> trace st = tr \<Longrightarrow> Q (fst (m st)) (trace (snd (m st)))"
  by (simp add: wp_def)

lemma wp_and_then:
  "wp m (\<lambda>r tr'. case r of Exited c \<Rightarrow> Q (Exited c) tr' | Raised e \<Rightarrow> Q (Raised e) tr'
                  | Returned x \<Rightarrow> wp (f x) Q tr') tr
     \<Longrightarrow> wp (and_then m f) Q tr"
  by (auto simp: wp_def and_then_def split: prod.splits outcome.splits)

lemma wp_say: "Q (Returned ()) (tr @ [Stdout s]) \<Longrightarrow> wp (say s) Q tr"
  by (simp add: wp_def say_def emit_def)

lemma wp_Pair: "Q r tr \<Longrightarrow> wp (Pair r) Q tr"
  by (simp add: wp_def)

lemma wp_if: "(b \<Longrightarrow> wp m Q tr) \<Longrightarrow> (\<not> b \<Longrightarrow> wp n Q tr) \<Longrightarrow> wp (if b then m else n) Q tr"
  by simp

lemma collected_plain [simp]: "collected sys False p = Returned None"
  by (simp add: collected_def)

lemma wp_run:
  assumes "\<And>p. returncode p = 0 \<Longrightarrow>
      Q (collected sys capture p) (tr @ [echo cmd, Spawn cmd p])"
    and "\<And>p. returncode p \<noteq> 0 \<Longrightarrow>
      Q (Exited (returncode p)) (tr @ [echo cmd, Spawn cmd p, failure sys cmd capture p])"
  shows "wp (run sys cmd True capture) Q tr"
  unfolding wp_def
proof (intro allI impI)
  fix st :: "'a state"
  assume tr: "trace st = tr"
  obtain p w' where sp: "spawn sys cmd (world st) = (p, w')"
    by (cases "spawn sys cmd (world st)")
  show "Q (fst (run sys cmd True capture st)) (trace (snd (run sys cmd True capture st)))"
  proof (cases "returncode p = 0")
    case True
    from assms(1) [OF True] sp tr True show ?thesis
      by (cases capture; cases "decode sys (captured p)")
        (simp_all add: run_def call_def emit_def echo_def collected_def)
  next
    case False
    from assms(2) [OF False] sp tr False show ?thesis
      by (simp add: run_def call_def emit_def echo_def failure_def)
  qed
qed

lemma wp_parse_args:
  "Q (fst (argparse sys argv)) (tr @ map shown (snd (argparse sys argv)))
     \<Longrightarrow> wp (parse_args sys argv) Q tr"
  by (auto simp: wp_def parse_args_def split: prod.splits)

lemma wp_ensure_origin:
  assumes "\<And>p t. returncode p = 0 \<Longrightarrow> decode sys (captured p) = Some t \<Longrightarrow>
      Q (Returned True)
        (tr @ [Spawn cmd_get_url p,
               Stdout (str ''origin remote configured: '' @ strip t)])"
    and "\<And>p. returncode p = 0 \<Longrightarrow> decode sys (captured p) = None \<Longrightarrow>
      Q (Raised UnicodeDecodeError) (tr @ [Spawn cmd_get_url p])"
    and "\<And>p q. returncode p \<noteq> 0 \<Longrightarrow> returncode q = 0 \<Longrightarrow>
      Q (Returned True)
        (tr @ [Spawn cmd_get_url p,
               Stdout (str ''No origin remote found. Adding origin -> '' @ ssh_url),
               echo cmd_remote_add, Spawn cmd_remote_add q])"
    and "\<And>p q. returncode p \<noteq> 0 \<Longrightarrow> returncode q \<noteq> 0 \<Longrightarrow>
      Q (Exited (returncode q))
        (tr @ [Spawn cmd_get_url p,
               Stdout (str ''No origin remote found. Adding origin -> '' @ ssh_url),
               echo cmd_remote_add, Spawn cmd_remote_add q,
               failure sys cmd_remote_add False q])"
  shows "wp (ensure_origin sys) Q tr"
  using assms
  by (auto simp: wp_def ensure_origin_def call_def and_then_def say_def emit_def run_def
      Let_def echo_def failure_def split: prod.splits option.splits)

lemma wp_repo_check:
  assumes "\<And>p. returncode p \<noteq> 0 \<Longrightarrow> Q (Exited 1) (tr @ [Spawn cmd_rev_parse p, e])"
    and "\<And>p. returncode p = 0 \<Longrightarrow> wp body Q (tr @ [Spawn cmd_rev_parse p])"
  shows "wp (\<lambda>st. let (ok, st1) = inside_git_repo sys st
                   in if \<not> ok then (Exited 1, emit e st1) else body st1) Q tr"
  using assms
  by (auto simp: wp_def inside_git_repo_def call_def emit_def Let_def split: prod.splits)

lemmas wp_rules =
  wp_and_then wp_say wp_Pair wp_if wp_run wp_parse_args wp_ensure_origin

text \<open>A property of every outcome and trace of \<open>main\<close> is one of the run from \<open>init\<close>.\<close>

lemma main_run:
  assumes "wp (main sys argv) Q []"
  shows "Q (fst (main sys argv (init w))) (events sys argv w)"
  using wpD [OF assms, of "init w"] by (simp add: events_def init_def)

text \<open>With the repository check failing, nothing but the check and the message happens.\<close>

lemma main_not_repo:
  assumes "returncode (fst (spawn sys cmd_rev_parse w)) \<noteq> 0"
  shows "main sys argv (init w) =
     (Exited 1,
      \<lparr>world = snd (spawn sys cmd_rev_parse w),
       trace = [Spawn cmd_rev_parse (fst (spawn sys cmd_rev_parse w)),
                Stdout (str ''This directory is not a git repository. Initialize or run from repo root.'')]\<rparr>)"
proof (cases "spawn sys cmd_rev_parse w")
  case (Pair p w')
  with assms show ?thesis
    by (simp add: main_def inside_git_repo_def call_def emit_def init_def)
qed

text \<open>The ways through \<open>ensure_origin\<close>.\<close>

lemma ensure_origin_found:
  assumes "spawn sys cmd_get_url (world st) = (p, w')" "returncode p = 0"
    and "decode sys (captured p) = Some t"
  shows "ensure_origin sys st =
     (Returned True,
      \<lparr>world = w',
       trace = trace st @ [Spawn cmd_get_url p,
                Stdout (str ''origin remote configured: '' @ strip t)]\<rparr>)"
  using assms by (simp add: ensure_origin_def call_def emit_def)

lemma ensure_origin_absent:
  assumes "spawn sys cmd_get_url (world st) = (p, w')" "returncode p \<noteq> 0"
    and "spawn sys cmd_remote_add w' = (q, w'')"
  shows "fst (ensure_origin sys st) =
           (if returncode q = 0 then Returned True else Exited (returncode q))"
    and "spawned (trace (snd (ensure_origin sys st))) =
           spawned (trace st) @ [cmd_get_url, cmd_remote_add]"
  using assms
  by (simp_all add: ensure_origin_def call_def emit_def and_then_def say_def run_def)

subsection \<open>Outside a repository\<close>

text \<open>
  C1. Whatever the command line, when the repository check exits non-zero the run ends
  with status 1, the check is the only command executed, and so no staging, commit,
  remote-registration or push command is invoked.
\<close>

theorem not_a_repository_exits_1:
  assumes "returncode (fst (spawn sys cmd_rev_parse w)) \<noteq> 0"
  shows "status sys argv w = 1 \<and> commands sys argv w = [cmd_rev_parse] \<and>
         filter mutating (commands sys argv w) = []"
  using main_not_repo [OF assms, of argv]
  by (simp add: status_def commands_def events_def exit_status_def)

theorem not_a_repository_exits_1_witness:
  "returncode (fst (spawn sim cmd_rev_parse outside)) \<noteq> 0 \<and>
   status sim [str ''--all''] outside = 1 \<and>
   commands sim [str ''--all''] outside = [cmd_rev_parse] \<and>
   filter mutating (commands sim [str ''--all''] outside) = []"
proof -
  have h: "returncode (fst (spawn sim cmd_rev_parse outside)) \<noteq> 0"
    by code_simp
  from h not_a_repository_exits_1 [OF h, of "[str ''--all'']"] show ?thesis by blast
qed

text \<open>
  C9. The repository check comes before the command line is read: when it exits
  non-zero, every argument vector and every behaviour of the argument parser give
  status 1 and the same two events, the check and the message, so nothing the parser
  would print is ever shown.
\<close>

theorem repository_check_before_parsing:
  assumes "returncode (fst (spawn sys cmd_rev_parse w)) \<noteq> 0"
  shows "status sys argv w = 1 \<and>
         events sys argv w =
           [Spawn cmd_rev_parse (fst (spawn sys cmd_rev_parse w)),
            Stdout (str ''This directory is not a git repository. Initialize or run from repo root.'')]
         \<and> events (sys\<lparr>argparse := parser\<rparr>) argv' w = events sys argv w"
proof -
  let ?sys' = "sys\<lparr>argparse := parser\<rparr>"
  have "returncode (fst (spawn ?sys' cmd_rev_parse w)) \<noteq> 0"
    using assms by simp
  from main_not_repo [OF this, of argv'] main_not_repo [OF assms, of argv]
  show ?thesis
    by (simp add: status_def events_def exit_status_def)
qed

theorem repository_check_before_parsing_witness:
  "returncode (fst (spawn sim cmd_rev_parse outside)) \<noteq> 0 \<and>
   fst (argparse sim [str ''--bogus'']) = Exited 2 \<and>
   status sim [str ''--bogus''] fresh = 2 \<and>
   status sim [str ''--bogus''] outside = 1 \<and>
   events sim [str ''--bogus''] outside =
     [Spawn cmd_rev_parse (finished 128 []),
      Stdout (str ''This directory is not a git repository. Initialize or run from repo root.'')]"
proof -
  have h: "returncode (fst (spawn sim cmd_rev_parse outside)) \<noteq> 0"
    by code_simp
  have e: "fst (argparse sim [str ''--bogus'']) = Exited 2"
    "status sim [str ''--bogus''] fresh = 2"
    "fst (spawn sim cmd_rev_parse outside) = finished 128 []"
    by code_simp+
  from repository_check_before_parsing [OF h, of "[str ''--bogus'']"] h e show ?thesis by simp
qed

subsection \<open>The remote\<close>

text \<open>
  C2, as the script has it. The claim speaks of the configured remote name; the step
  uses the fixed name \<open>origin\<close> whatever \<open>--remote\<close> says. It asks for the address of
  \<open>origin\<close>; when that query exits with 0 and its answer decodes, it registers nothing
  and prints the answer without the surrounding whitespace; when the query exits
  non-zero it registers \<open>origin\<close> with the address made of the fixed owner and
  repository. In a whole run, every query for an address and every registration is one
  of these two command lines.
\<close>

theorem ensure_origin_uses_origin:
  "cmd_get_url = map str [''git'', ''remote'', ''get-url'', ''origin''] \<and>
   cmd_remote_add =
     map str [''git'', ''remote'', ''add'', ''origin'',
              ''git@github.com:Ravi-Chandra24/Ask-her-Out.git''] \<and>
   (returncode (fst (spawn sys cmd_get_url (world st))) = 0 \<and>
    decode sys (captured (fst (spawn sys cmd_get_url (world st)))) = Some t \<longrightarrow>
      fst (ensure_origin sys st) = Returned True \<and>
      trace (snd (ensure_origin sys st)) =
        trace st @
        [Spawn cmd_get_url (fst (spawn sys cmd_get_url (world st))),
         Stdout (str ''origin remote configured: '' @ strip t)]) \<and>
   (returncode (fst (spawn sys cmd_get_url (world st))) \<noteq> 0 \<longrightarrow>
      spawned (trace (snd (ensure_origin sys st))) =
        spawned (trace st) @ [cmd_get_url, cmd_remote_add]) \<and>
   (filter is_remote_query (commands sys argv w) = [] \<or>
    filter is_remote_query (commands sys argv w) = [cmd_get_url]) \<and>
   (filter is_remote_add (commands sys argv w) = [] \<or>
    filter is_remote_add (commands sys argv w) = [cmd_remote_add])"
proof -
  obtain p w' where p: "spawn sys cmd_get_url (world st) = (p, w')"
    by (cases "spawn sys cmd_get_url (world st)")
  obtain q w'' where q: "spawn sys cmd_remote_add w' = (q, w'')"
    by (cases "spawn sys cmd_remote_add w'")
  have names: "cmd_get_url = map str [''git'', ''remote'', ''get-url'', ''origin'']"
    "cmd_remote_add =
       map str [''git'', ''remote'', ''add'', ''origin'',
                ''git@github.com:Ravi-Chandra24/Ask-her-Out.git'']"
    by (simp_all add: cmd_get_url_def cmd_remote_add_def ssh_url_def REPO_OWNER_def REPO_NAME_def
        str_def)
  have found: "returncode (fst (spawn sys cmd_get_url (world st))) = 0 \<and>
      decode sys (captured (fst (spawn sys cmd_get_url (world st)))) = Some t \<longrightarrow>
      fst (ensure_origin sys st) = Returned True \<and>
      trace (snd (ensure_origin sys st)) =
        trace st @
        [Spawn cmd_get_url (fst (spawn sys cmd_get_url (world st))),
         Stdout (str ''origin remote configured: '' @ strip t)]"
    using ensure_origin_found [OF p, of t] by (simp add: p)
  have absent: "returncode (fst (spawn sys cmd_get_url (world st))) \<noteq> 0 \<longrightarrow>
      spawned (trace (snd (ensure_origin sys st))) =
        spawned (trace st) @ [cmd_get_url, cmd_remote_add]"
    using ensure_origin_absent(2) [OF p _ q] by (simp add: p)
  have "wp (main sys argv)
          (\<lambda>r tr. (filter is_remote_query (spawned tr) = [] \<or>
                    filter is_remote_query (spawned tr) = [cmd_get_url]) \<and>
                   (filter is_remote_add (spawned tr) = [] \<or>
                    filter is_remote_add (spawned tr) = [cmd_remote_add])) []"
    unfolding main_def [abs_def]
    apply (rule wp_repo_check)
    by (auto intro!: wp_rules simp: collected_def split: outcome.splits option.splits)
  from main_run [OF this, of w]
  have whole: "(filter is_remote_query (commands sys argv w) = [] \<or>
      filter is_remote_query (commands sys argv w) = [cmd_get_url]) \<and>
     (filter is_remote_add (commands sys argv w) = [] \<or>
      filter is_remote_add (commands sys argv w) = [cmd_remote_add])"
    by (simp add: commands_def)
  from names found absent whole show ?thesis
    by (intro conjI) (assumption | erule conjunct1 | erule conjunct2)+
qed

theorem ensure_origin_uses_origin_witness:
  "returncode (fst (spawn sim cmd_get_url settled)) = 0 \<and>
   decode sim (captured (fst (spawn sim cmd_get_url settled))) = Some (ssh_url @ newline) \<and>
   fst (ensure_origin sim (init settled)) = Returned True \<and>
   trace (snd (ensure_origin sim (init settled))) =
     [Spawn cmd_get_url (finished 0 (ascii_bytes (ssh_url @ newline))),
      Stdout (str ''origin remote configured: '' @ ssh_url)] \<and>
   returncode (fst (spawn sim cmd_get_url fresh)) \<noteq> 0 \<and>
   spawned (trace (snd (ensure_origin sim (init fresh)))) = [cmd_get_url, cmd_remote_add]"
proof -
  have h: "returncode (fst (spawn sim cmd_get_url settled)) = 0"
    "decode sim (captured (fst (spawn sim cmd_get_url settled))) = Some (ssh_url @ newline)"
    "returncode (fst (spawn sim cmd_get_url fresh)) \<noteq> 0"
    by code_simp+
  have v: "fst (spawn sim cmd_get_url settled) = finished 0 (ascii_bytes (ssh_url @ newline))"
    "strip (ssh_url @ newline) = ssh_url"
    by code_simp+
  from ensure_origin_uses_origin [of sim "init settled" "ssh_url @ newline"]
    ensure_origin_uses_origin [of sim "init fresh"] h v
  show ?thesis
    by (simp add: init_def)
qed

text \<open>
  C2 as stated fails. With \<open>--remote upstream\<close>, in a work tree whose remote
  \<open>upstream\<close> resolves and that has no \<open>origin\<close>, the run never asks for the address
  of \<open>upstream\<close>: it asks for \<open>origin\<close>, registers \<open>origin\<close>, and pushes to \<open>upstream\<close>.
\<close>

theorem remote_option_not_used_by_ensure_origin:
  "fst (argparse sim (map str [''--remote'', ''upstream''])) =
     Returned (default_args\<lparr>remote := str ''upstream''\<rparr>) \<and>
   returncode
     (fst (spawn sim (map str [''git'', ''remote'', ''get-url'', ''upstream'']) mirrored)) = 0 \<and>
   commands sim (map str [''--remote'', ''upstream'']) mirrored =
     [map str [''git'', ''rev-parse'', ''--is-inside-work-tree''],
      map str [''git'', ''add'', ''index.html'', ''ask_her_out.html'', ''schedule.html'',
               ''git.py''],
      map str [''git'', ''diff'', ''--cached'', ''--name-only''],
      map str [''git'', ''commit'', ''-m'', ''Prepare site for GitHub Pages''],
      map str [''git'', ''remote'', ''get-url'', ''origin''],
      map str [''git'', ''remote'', ''add'', ''origin'',
               ''git@github.com:Ravi-Chandra24/Ask-her-Out.git''],
      map str [''git'', ''push'', ''upstream'', ''main'']]"
  by code_simp

text \<open>
  What \<open>ensure_origin\<close> does with the return code of the query: non-zero leads to the
  registration, whose failure ends the step with its return code; zero leads to the
  decoding of the answer, which returns or raises.
\<close>

lemma remote_query_outcomes:
  "(returncode (fst (spawn sys cmd_get_url (world st))) \<noteq> 0 \<longrightarrow>
      spawned (trace (snd (ensure_origin sys st))) =
        spawned (trace st) @ [cmd_get_url, cmd_remote_add] \<and>
      fst (ensure_origin sys st) =
        (let q = fst (spawn sys cmd_remote_add (snd (spawn sys cmd_get_url (world st))))
         in if returncode q = 0 then Returned True else Exited (returncode q))) \<and>
   (returncode (fst (spawn sys cmd_get_url (world st))) = 0 \<longrightarrow>
      fst (ensure_origin sys st) =
        (case decode sys (captured (fst (spawn sys cmd_get_url (world st)))) of
           None \<Rightarrow> Raised UnicodeDecodeError
         | Some t \<Rightarrow> Returned True))"
proof -
  obtain p w' where p: "spawn sys cmd_get_url (world st) = (p, w')"
    by (cases "spawn sys cmd_get_url (world st)")
  obtain q w'' where q: "spawn sys cmd_remote_add w' = (q, w'')"
    by (cases "spawn sys cmd_remote_add w'")
  from ensure_origin_absent [OF p _ q]
  show ?thesis
    by (simp add: p q ensure_origin_def call_def emit_def split: option.splits)
qed

text \<open>
  C10 does not hold of the script. The step can end the process without any failure of
  the registration command: where \<open>origin\<close> has the one-byte address 255, the query
  returns 0, its answer does not decode, and \<open>ensure_origin\<close> leaves through an
  uncaught \<open>UnicodeDecodeError\<close>, status 1, with the query as its only command.
\<close>

theorem ensure_origin_raises_on_undecodable_address:
  "fst (spawn sim cmd_get_url garbled) = finished 0 [CHR 0xFF, CHR 0x0A] \<and>
   decode sim [CHR 0xFF, CHR 0x0A] = None \<and>
   fst (ensure_origin sim (init garbled)) = Raised UnicodeDecodeError \<and>
   exit_status (fst (ensure_origin sim (init garbled))) = 1 \<and>
   trace (snd (ensure_origin sim (init garbled))) =
     [Spawn (map str [''git'', ''remote'', ''get-url'', ''origin''])
        (finished 0 [CHR 0xFF, CHR 0x0A])]"
  by code_simp

subsection \<open>Exit status\<close>






subsection \<open>Staging, commit and push\<close>

text \<open>
  C8. Once the repository check has passed and the arguments are accepted, exactly one
  staging command is executed: \<open>git add -A\<close> with \<open>--all\<close>, and \<open>git add\<close> with the four
  fixed files otherwise. A commit command, when one is executed, is \<open>git commit -m\<close> with
  the configured message, whose default is the fixed publish message.
\<close>

theorem stage_and_commit_commands:
  assumes "fst (argparse sys argv) = Returned a" "\<not> failed cmd_rev_parse (events sys argv w)"
  shows "filter is_stage (commands sys argv w) =
           [if all a then map str [''git'', ''add'', ''-A'']
            else map str [''git'', ''add'', ''index.html'', ''ask_her_out.html'',
                          ''schedule.html'', ''git.py'']] \<and>
         (filter is_commit (commands sys argv w) = [] \<or>
          filter is_commit (commands sys argv w) =
            [map str [''git'', ''commit'', ''-m''] @ [message a]]) \<and>
         message default_args = str ''Prepare site for GitHub Pages''"
proof -
  have "wp (main sys argv)
          (\<lambda>r tr. (\<not> failed cmd_rev_parse tr \<longrightarrow>
                filter is_stage (spawned tr) = [if all a then cmd_stage_all else cmd_stage_files]) \<and>
             (filter is_commit (spawned tr) = [] \<or>
              filter is_commit (spawned tr) = [cmd_commit (message a)])) []"
    unfolding main_def [abs_def]
    apply (rule wp_repo_check)
    using assms(1)
    by (auto intro!: wp_rules simp: collected_def split: outcome.splits option.splits)
  from main_run [OF this, of w] assms(2) show ?thesis
    by (simp add: commands_def cmd_stage_all_def cmd_stage_files_def FILES_def cmd_commit_def
        default_args_def COMMIT_MSG_def)
qed

theorem stage_and_commit_commands_witness:
  "fst (argparse sim [str ''--all'']) = Returned (default_args\<lparr>all := True\<rparr>) \<and>
   \<not> failed cmd_rev_parse (events sim [str ''--all''] fresh) \<and>
   filter is_stage (commands sim [str ''--all''] fresh) = [map str [''git'', ''add'', ''-A'']] \<and>
   filter is_commit (commands sim [str ''--all''] fresh) =
     [map str [''git'', ''commit'', ''-m'', ''Prepare site for GitHub Pages'']] \<and>
   fst (argparse sim []) = Returned default_args \<and>
   \<not> failed cmd_rev_parse (events sim [] fresh) \<and>
   filter is_stage (commands sim [] fresh) =
     [map str [''git'', ''add'', ''index.html'', ''ask_her_out.html'', ''schedule.html'',
               ''git.py'']]"
proof -
  have h1: "fst (argparse sim [str ''--all'']) = Returned (default_args\<lparr>all := True\<rparr>)"
    "fst (argparse sim []) = Returned default_args"
    by code_simp+
  have h2: "\<not> failed cmd_rev_parse (events sim [str ''--all''] fresh)"
    "\<not> failed cmd_rev_parse (events sim [] fresh)"
    by code_simp+
  have v: "filter is_commit (commands sim [str ''--all''] fresh) \<noteq> []"
    by code_simp
  from stage_and_commit_commands [OF h1(1) h2(1)] stage_and_commit_commands [OF h1(2) h2(2)]
    h1 h2 v
  show ?thesis
    by (simp add: default_args_def COMMIT_MSG_def)
qed



text \<open>
  What follows an empty staging result, when the staged-changes query returns 0 with
  an output that decodes and is empty after stripping: no commit command is executed,
  the line \<open>No staged changes to commit.\<close> is printed and the address of \<open>origin\<close> is
  queried. Unless \<open>--no-push\<close> is set, the registration failed or an answer did not
  decode, the push step is reached: its line is printed, and the push command is
  executed unless \<open>--dry-run\<close> is set. The run ends with status 0 when neither the
  registration nor the push failed and the answers decoded.
\<close>

lemma empty_staging_skips_commit:
  assumes "fst (argparse sys argv) = Returned a"
    and "(cmd_diff_cached, p) \<in> set (procs (events sys argv w))"
    and "returncode p = 0" "decode sys (captured p) = Some t" "strip t = []"
  shows "filter is_commit (commands sys argv w) = [] \<and>
         Stdout (str ''No staged changes to commit.'') \<in> set (events sys argv w) \<and>
         cmd_get_url \<in> set (commands sys argv w) \<and>
         (\<not> no_push a \<and> \<not> failed cmd_remote_add (events sys argv w) \<and>
          undecoded sys (events sys argv w) = [] \<longrightarrow>
            Stdout (str ''Pushing to '' @ remote a @ str '' '' @ branch a @ str ''...'')
              \<in> set (events sys argv w) \<and>
            filter is_push (commands sys argv w) =
              (if dry_run a then [] else [cmd_push (remote a) (branch a)])) \<and>
         (\<not> failed cmd_remote_add (events sys argv w) \<and>
          \<not> failed (cmd_push (remote a) (branch a)) (events sys argv w) \<and>
          undecoded sys (events sys argv w) = [] \<longrightarrow>
            status sys argv w = 0)"
proof -
  have "wp (main sys argv)
          (\<lambda>r tr. (cmd_diff_cached, p) \<in> set (procs tr) \<longrightarrow>
             filter is_commit (spawned tr) = [] \<and>
             Stdout (str ''No staged changes to commit.'') \<in> set tr \<and>
             cmd_get_url \<in> set (spawned tr) \<and>
             (\<not> no_push a \<and> \<not> failed cmd_remote_add tr \<and> undecoded sys tr = [] \<longrightarrow>
                Stdout (str ''Pushing to '' @ remote a @ str '' '' @ branch a @ str ''...'')
                  \<in> set tr \<and>
                filter is_push (spawned tr) =
                  (if dry_run a then [] else [cmd_push (remote a) (branch a)])) \<and>
             (\<not> failed cmd_remote_add tr \<and> \<not> failed (cmd_push (remote a) (branch a)) tr \<and>
              undecoded sys tr = [] \<longrightarrow>
                exit_status r = 0)) []"
    unfolding main_def [abs_def]
    apply (rule wp_repo_check)
    using assms(1,3,4,5)
    by (auto intro!: wp_rules simp: exit_status_def falsy_def collected_def
        split: outcome.splits option.splits)
  from main_run [OF this, of w] assms(2) show ?thesis
    by (simp add: commands_def status_def)
qed

text \<open>
  C5 does not hold of the script. In a work tree with nothing changed whose \<open>origin\<close>
  has the one-byte address 255, without any option: the staged-changes query returns
  nothing, every command of the run returns 0, and yet the run reaches no push step and
  ends with status 1, through the \<open>UnicodeDecodeError\<close> that \<open>ensure_origin\<close> does not
  catch.
\<close>

theorem empty_staging_undecodable_address_no_push:
  "fst (argparse sim []) = Returned default_args \<and>
   no_push default_args = False \<and> dry_run default_args = False \<and>
   procs (events sim [] garbled) =
     [(map str [''git'', ''rev-parse'', ''--is-inside-work-tree''],
       finished 0 (ascii_bytes (str ''true'' @ newline))),
      (map str [''git'', ''add'', ''index.html'', ''ask_her_out.html'', ''schedule.html'',
                ''git.py''],
       finished 0 []),
      (map str [''git'', ''diff'', ''--cached'', ''--name-only''], finished 0 []),
      (map str [''git'', ''remote'', ''get-url'', ''origin''],
       finished 0 [CHR 0xFF, CHR 0x0A])] \<and>
   failures (events sim [] garbled) = [] \<and>
   fst (main sim [] (init garbled)) = Raised UnicodeDecodeError \<and>
   status sim [] garbled = 1 \<and>
   filter is_push (commands sim [] garbled) = []"
  by code_simp

subsection \<open>Echo\<close>

text \<open>
  C6, as the script has it. The claim includes the repository check and the query for
  the address of \<open>origin\<close> among the echoed commands; both are started directly, without
  \<open>run\<close>, and nothing is printed for them. For every other command the script calls
  \<open>print\<close> with the command line as the action just before it starts the command. The
  call does not flush: where standard output writes every line out at once, what
  reaches it is the trace itself, so the line is there before the command runs.
\<close>

theorem run_commands_are_echoed:
  "filter (\<lambda>c. c \<noteq> cmd_rev_parse \<and> c \<noteq> cmd_get_url) (unechoed (events sys argv w)) = [] \<and>
   cmd_rev_parse \<in> set (unechoed (events sys argv w)) \<and>
   (cmd_get_url \<in> set (commands sys argv w) \<longrightarrow>
      cmd_get_url \<in> set (unechoed (events sys argv w))) \<and>
   unechoed (deliver (\<lambda>_. True) [] (events sys argv w)) = unechoed (events sys argv w)"
proof -
  have "wp (main sys argv)
          (\<lambda>r tr. filter (\<lambda>c. c \<noteq> cmd_rev_parse \<and> c \<noteq> cmd_get_url) (unechoed tr) = [] \<and>
             cmd_rev_parse \<in> set (unechoed tr) \<and>
             (cmd_get_url \<in> set (spawned tr) \<longrightarrow> cmd_get_url \<in> set (unechoed tr))) []"
    unfolding main_def [abs_def]
    apply (rule wp_repo_check)
    by (auto intro!: wp_rules simp: echo_def failure_def collected_def str_def
        split: outcome.splits option.splits)
  from main_run [OF this, of w] show ?thesis
    by (simp add: commands_def deliver_every_line)
qed

theorem run_commands_are_echoed_witness:
  "cmd_get_url \<in> set (commands sim [str ''--no-push''] settled) \<and>
   cmd_get_url \<in> set (unechoed (events sim [str ''--no-push''] settled)) \<and>
   commands sim [str ''--no-push''] settled =
     [cmd_rev_parse, cmd_stage_files, cmd_diff_cached, cmd_get_url] \<and>
   unechoed (deliver (\<lambda>_. True) [] (events sim [str ''--no-push''] settled)) =
     unechoed (events sim [str ''--no-push''] settled) \<and>
   unechoed (deliver (\<lambda>_. False) [] (events sim [str ''--no-push''] settled)) =
     [cmd_rev_parse, cmd_stage_files, cmd_diff_cached, cmd_get_url]"
proof -
  have h: "cmd_get_url \<in> set (commands sim [str ''--no-push''] settled)"
    by code_simp
  have v: "commands sim [str ''--no-push''] settled =
      [cmd_rev_parse, cmd_stage_files, cmd_diff_cached, cmd_get_url]"
    "unechoed (deliver (\<lambda>_. False) [] (events sim [str ''--no-push''] settled)) =
       [cmd_rev_parse, cmd_stage_files, cmd_diff_cached, cmd_get_url]"
    by code_simp+
  from run_commands_are_echoed [of sim "[str ''--no-push'']" settled] h v show ?thesis
    by simp
qed

text \<open>
  C6 as stated fails. In the run without options in a fresh work tree, the repository
  check is the first event, with nothing printed before it, and the query for the
  address of \<open>origin\<close> is not echoed either.
\<close>

theorem repository_check_and_remote_query_not_echoed:
  "unechoed (events sim [] fresh) =
     [map str [''git'', ''rev-parse'', ''--is-inside-work-tree''],
      map str [''git'', ''remote'', ''get-url'', ''origin'']] \<and>
   hd (events sim [] fresh) =
     Spawn (map str [''git'', ''rev-parse'', ''--is-inside-work-tree''])
       (finished 0 (ascii_bytes (str ''true'' @ newline)))"
  by code_simp

end
